theory Spec2Isabelle
  imports Main "HOL-Library.Signed_Division"
begin

section \<open>The balance store (mint/model/balance.go)\<close>

subsection \<open>Data\<close>

text \<open>
  Modelled from the spec: the declaration of \<open>mint.PgType\<close> is outside the given
  sources, which only name \<open>mint.PgTpCanonical\<close>. The spec gives the propagation
  column the two values canonical and propagated.
\<close>

datatype PgType = PgTpCanonical | PgTpPropagated

text \<open>
  Modelled from the spec: the declaration of \<open>Amount\<close> is outside the given sources,
  which only use the type and build its zero with the composite literal \<open>Amount{}\<close>.
  The spec defines it as a non-negative scalar with exact values, also beyond the 64-bit
  range, whose zero is the default value: a natural number.
\<close>

type_synonym Amount = nat

text \<open>\<open>time.Time\<close> is kept as a count of nanoseconds.\<close>

type_synonym Time = int

record Balance =
  Owner :: string
  Token :: string
  Created :: Time
  Propagation :: PgType
  Asset :: string
  Holder :: string
  Value :: Amount

text \<open>
  The errors of the two drivers that the type switch of \<open>CreateCanonicalBalance\<close>
  tells apart: a \<open>*pq.Error\<close>, known by the name of its code, a \<open>sqlite3.Error\<close>,
  known by its extended code, and any other error value.
\<close>

datatype db_error =
    PqError string
  | Sqlite3Error nat
  | OtherError string

text \<open>\<open>sqlite3.ErrConstraintUnique\<close> is \<open>ErrConstraint.Extend(8)\<close>, that is 19 + 8 * 256.\<close>

definition ErrConstraintUnique :: nat where
  "ErrConstraintUnique = 2067"

datatype error =
    ErrUniqueConstraintViolation db_error
  | StorageError db_error

text \<open>\<open>errors.Trace\<close> annotates an error with the call site and keeps the error.\<close>

definition Trace :: "error \<Rightarrow> error" where
  "Trace err = err"

subsection \<open>Storage\<close>

text \<open>
  The three statements the package sends. The store is the balances relation, its rows
  in storage order, together with the journal of the statements received so far.
\<close>

datatype stmt =
    InsertBalance Balance
  | UpdateValue Balance
  | SelectByAssetHolder string string

record store =
  rows :: "Balance list"
  journal :: "stmt list"

text \<open>
  What one call draws from outside the program: the token \<open>token.New("balance")\<close>
  returns, the clock, and what the engine answers to each driver call (\<open>None\<close>: the
  call goes through). Whether an insert is accepted is the engine's decision, under
  whatever constraints the schema declares; a refused statement leaves the rows alone.
  The query has no \<open>ORDER BY\<close>, so the order of its result set is the engine's
  decision too: \<open>cursor_first\<close> says which of the selected rows the cursor yields
  first. \<open>next_err\<close> is the error that makes \<open>rows.Next()\<close> return false on a result
  set that has a row; it would show in \<open>rows.Err()\<close>.
\<close>

record env =
  token_New :: string
  time_Now :: Time
  exec_err :: "db_error option"
  query_err :: "db_error option"
  cursor_first :: nat
  next_err :: "db_error option"
  scan_err :: "db_error option"
  close_err :: "db_error option"

definition record_stmt :: "stmt \<Rightarrow> store \<Rightarrow> store" where
  "record_stmt q s = s\<lparr>journal := journal s @ [q]\<rparr>"

text \<open>\<open>INSERT INTO balances (...) VALUES (...)\<close>\<close>

definition NamedExec_insert :: "env \<Rightarrow> Balance \<Rightarrow> store \<Rightarrow> db_error option \<times> store" where
  "NamedExec_insert e b s =
     (case exec_err e of
        Some err \<Rightarrow> (Some err, record_stmt (InsertBalance b) s)
      | None \<Rightarrow> (None, record_stmt (InsertBalance b) (s\<lparr>rows := rows s @ [b]\<rparr>)))"

text \<open>\<open>UPDATE balances SET value = :value WHERE owner = :owner AND token = :token\<close>\<close>

definition update_row :: "Balance \<Rightarrow> Balance \<Rightarrow> Balance" where
  "update_row b r =
     (if Owner r = Owner b \<and> Token r = Token b then r\<lparr>Value := Value b\<rparr> else r)"

definition NamedExec_update :: "env \<Rightarrow> Balance \<Rightarrow> store \<Rightarrow> db_error option \<times> store" where
  "NamedExec_update e b s =
     (case exec_err e of
        Some err \<Rightarrow> (Some err, record_stmt (UpdateValue b) s)
      | None \<Rightarrow> (None, record_stmt (UpdateValue b) (s\<lparr>rows := map (update_row b) (rows s)\<rparr>)))"

text \<open>
  \<open>SELECT * FROM balances WHERE asset = :asset AND holder = :holder\<close>. \<open>select_rows\<close>
  is the set of rows the condition selects, listed in storage order; the result set the
  cursor walks starts at the row the engine chooses and goes round from there. The code
  reads the first row of the result set and no other.
\<close>

definition select_rows :: "string \<Rightarrow> string \<Rightarrow> Balance list \<Rightarrow> Balance list" where
  "select_rows asset holder rs = filter (\<lambda>r. Asset r = asset \<and> Holder r = holder) rs"

definition NamedQuery :: "env \<Rightarrow> Balance \<Rightarrow> store \<Rightarrow> (db_error + Balance list) \<times> store" where
  "NamedQuery e b s =
     (case query_err e of
        Some err \<Rightarrow> (Inl err, record_stmt (SelectByAssetHolder (Asset b) (Holder b)) s)
      | None \<Rightarrow> (Inr (rotate (cursor_first e) (select_rows (Asset b) (Holder b) (rows s))),
                 record_stmt (SelectByAssetHolder (Asset b) (Holder b)) s))"

text \<open>
  \<open>rows.Next()\<close>: the next row, or false when the result set has no row or when
  preparing the row fails.
\<close>

definition rows_Next :: "env \<Rightarrow> Balance list \<Rightarrow> Balance option" where
  "rows_Next e result_set =
     (case next_err e of
        Some err \<Rightarrow> None
      | None \<Rightarrow> (case result_set of [] \<Rightarrow> None | row # _ \<Rightarrow> Some row))"

text \<open>\<open>rows.StructScan(&balance)\<close> writes the seven columns of the row into the struct.\<close>

definition StructScan :: "Balance \<Rightarrow> Balance \<Rightarrow> Balance" where
  "StructScan row b =
     b\<lparr>Owner := Owner row, Token := Token row, Created := Created row,
       Propagation := Propagation row, Asset := Asset row, Holder := Holder row,
       Value := Value row\<rparr>"

subsection \<open>Operations\<close>

definition CreateCanonicalBalance ::
  "env \<Rightarrow> string \<Rightarrow> string \<Rightarrow> string \<Rightarrow> Amount \<Rightarrow> store \<Rightarrow> (error + Balance) \<times> store" where
  "CreateCanonicalBalance e owner asset holder val s =
     (let balance = \<lparr>Owner = owner, Token = token_New e, Created = time_Now e,
                      Propagation = PgTpCanonical, Asset = asset, Holder = holder,
                      Value = val\<rparr>
      in case NamedExec_insert e balance s of
           (Some err, s') \<Rightarrow>
             (case err of
                PqError name \<Rightarrow>
                  if name = ''unique_violation''
                  then (Inl (Trace (ErrUniqueConstraintViolation err)), s')
                  else (Inl (Trace (StorageError err)), s')
              | Sqlite3Error ExtendedCode \<Rightarrow>
                  if ExtendedCode = ErrConstraintUnique
                  then (Inl (Trace (ErrUniqueConstraintViolation err)), s')
                  else (Inl (Trace (StorageError err)), s')
              | OtherError _ \<Rightarrow> (Inl (Trace (StorageError err)), s'))
         | (None, s') \<Rightarrow> (Inr balance, s'))"

definition Save :: "env \<Rightarrow> Balance \<Rightarrow> store \<Rightarrow> error option \<times> store" where
  "Save e b s =
     (case NamedExec_update e b s of
        (Some err, s') \<Rightarrow> (Some (Trace (StorageError err)), s')
      | (None, s') \<Rightarrow> (None, s'))"

definition LoadCanonicalBalanceByAssetHolder ::
  "env \<Rightarrow> string \<Rightarrow> string \<Rightarrow> store \<Rightarrow> (error + Balance option) \<times> store" where
  "LoadCanonicalBalanceByAssetHolder e asset holder s =
     (let balance = \<lparr>Owner = [], Token = [], Created = 0,
                      Propagation = PgTpCanonical, Asset = asset, Holder = holder,
                      Value = 0\<rparr>
      in case NamedQuery e balance s of
           (Inl err, s') \<Rightarrow> (Inl (Trace (StorageError err)), s')
         | (Inr result_set, s') \<Rightarrow>
             (case rows_Next e result_set of
                None \<Rightarrow> (Inr None, s')
              | Some row \<Rightarrow>
                  (case scan_err e of
                     Some err \<Rightarrow> (Inl (Trace (StorageError err)), s')
                   | None \<Rightarrow>
                       (case close_err e of
                          Some err \<Rightarrow> (Inl (Trace (StorageError err)), s')
                        | None \<Rightarrow> (Inr (Some (StructScan row balance)), s')))))"

definition LoadOrCreateCanonicalBalanceByAssetHolder ::
  "env \<Rightarrow> string \<Rightarrow> string \<Rightarrow> string \<Rightarrow> store \<Rightarrow> (error + Balance) \<times> store" where
  "LoadOrCreateCanonicalBalanceByAssetHolder e owner asset holder s =
     (case LoadCanonicalBalanceByAssetHolder e asset holder s of
        (Inl err, s') \<Rightarrow> (Inl (Trace err), s')
      | (Inr None, s') \<Rightarrow>
          (case CreateCanonicalBalance e owner asset holder 0 s' of
             (Inl err, s'') \<Rightarrow> (Inl (Trace err), s'')
           | (Inr balance, s'') \<Rightarrow> (Inr balance, s''))
      | (Inr (Some balance), s') \<Rightarrow> (Inr balance, s'))"

text \<open>
  A sequential execution: the calls a client of the package makes one after the other,
  each with what it draws from outside.
\<close>

datatype call =
    CallCreate env string string string Amount
  | CallSave env Balance
  | CallLoad env string string
  | CallLoadOrCreate env string string string

fun exec_call :: "call \<Rightarrow> store \<Rightarrow> store" where
  "exec_call (CallCreate e owner asset holder val) s =
     snd (CreateCanonicalBalance e owner asset holder val s)"
| "exec_call (CallSave e b) s = snd (Save e b s)"
| "exec_call (CallLoad e asset holder) s =
     snd (LoadCanonicalBalanceByAssetHolder e asset holder s)"
| "exec_call (CallLoadOrCreate e owner asset holder) s =
     snd (LoadOrCreateCanonicalBalanceByAssetHolder e owner asset holder s)"

fun run :: "call list \<Rightarrow> store \<Rightarrow> store" where
  "run [] s = s"
| "run (c # cs) s = run cs (exec_call c s)"

text \<open>The amounts a call hands to the package.\<close>

fun call_values :: "call \<Rightarrow> Amount list" where
  "call_values (CallCreate e owner asset holder val) = [val]"
| "call_values (CallSave e b) = [Value b]"
| "call_values (CallLoad e asset holder) = []"
| "call_values (CallLoadOrCreate e owner asset holder) = []"

text \<open>
  The signal of a uniqueness violation, in the words of the spec: a PostgreSQL error whose
  code is named \<open>unique_violation\<close>, or an SQLite error whose extended code is
  \<open>ErrConstraintUnique\<close>. The theorems compare the type switch of
  \<open>CreateCanonicalBalance\<close> with it.
\<close>

fun unique_violation :: "db_error \<Rightarrow> bool" where
  "unique_violation (PqError name) = (name = ''unique_violation'')"
| "unique_violation (Sqlite3Error ExtendedCode) = (ExtendedCode = ErrConstraintUnique)"
| "unique_violation (OtherError _) = False"

section \<open>The request controller (api/controller.go)\<close>

subsection \<open>Constants and tables\<close>

definition DefaultRetrieveChallengesCount :: nat where
  "DefaultRetrieveChallengesCount = 10"

definition MaxRetrieveChallengesCount :: nat where
  "MaxRetrieveChallengesCount = 10"



definition emailVerifiers :: "bool \<Rightarrow> string list" where
  "emailVerifiers livemode =
     (if livemode
      then [''GBTIKKWP5FOCMRSTJS46SCTWC6IKCHWDJMJMP6QLFGNYPRTCY63E5T3N'']
      else [''GDFZHVU2PNOFR5KXKDBW72ZF45TXTC6LOOLGJK7XD7V2JYQB4KIOEXKN''])"

text \<open>
  Modelled from the spec: package \<open>authentication\<close> is outside the given sources, which
  only name \<open>authentication.RootLiveKeypair\<close>. The spec gives each livemode signing
  keys of its own; \<open>RootTestKeypair\<close> stands for the keypair of test mode.
\<close>

datatype Keypair = RootLiveKeypair | RootTestKeypair

subsection \<open>Requests and responses\<close>

text \<open>
  What the handlers read from the context (\<open>livemode.Get\<close>, \<open>authentication.Get\<close>) and
  what they answer: \<open>respond.Error\<close> with a user error (status and code; the message is
  left out) or with an internal error, \<open>respond.Success\<close>, or nothing at all.
\<close>

record reqctx =
  ctx_livemode :: bool
  ctx_address :: string

text \<open>A \<open>ChallengeResource\<close> has a \<open>Value\<close> and a \<open>Created\<close> time in milliseconds.\<close>

datatype ChallengeResource = ChallengeResource string int

datatype 'e response =
    UserError nat string
  | InternalError 'e
  | Success "ChallengeResource list"
  | NoResponse

subsection \<open>RetrieveChallenges\<close>

text \<open>
  \<open>strconv.ParseUint(attr, 10, 64)\<close>: a non-empty run of decimal digits, no sign, below
  \<open>2^64\<close>.
\<close>

datatype NumError = ErrSyntax | ErrRange

definition digit_chars :: "char list" where
  "digit_chars = ''0123456789''"

fun digit_value :: "char \<Rightarrow> nat" where
  "digit_value c = length (takeWhile (\<lambda>d. d \<noteq> c) digit_chars)"

definition ParseUint :: "string \<Rightarrow> NumError + nat" where
  "ParseUint s =
     (if s = [] then Inl ErrSyntax
      else if \<not> list_all (\<lambda>c. c \<in> set digit_chars) s then Inl ErrSyntax
      else (let n = foldl (\<lambda>a c. 10 * a + digit_value c) 0 s
            in if n < 2 ^ 64 then Inr n else Inl ErrRange))"

text \<open>
  The loop \<open>for i := uint64(0); i < count; i++\<close>. \<open>MintChallenge\<close> is a parameter: the
  context, the keypair it signs with and the number of the call give the challenge and
  the time of its creation, or an error. \<open>UnixNano() / (1000 * 1000)\<close> is Go's
  truncating division.
\<close>

function mint_loop ::
  "(reqctx \<Rightarrow> Keypair \<Rightarrow> nat \<Rightarrow> 'e + string \<times> int) \<Rightarrow> reqctx \<Rightarrow> nat \<Rightarrow> nat
     \<Rightarrow> ChallengeResource list \<Rightarrow> 'e + ChallengeResource list" where
  "mint_loop MintChallenge ctx i count challenges =
     (if i < count
      then (case MintChallenge ctx RootLiveKeypair i of
              Inl err \<Rightarrow> Inl err
            | Inr (challenge, created) \<Rightarrow>
                mint_loop MintChallenge ctx (i + 1) count
                  (challenges @ [ChallengeResource challenge (created sdiv (1000 * 1000))]))
      else Inr challenges)"
  by pat_completeness auto
termination
  by (relation "measure (\<lambda>(m, ctx, i, count, cs). count - i)") auto

definition RetrieveChallenges ::
  "(reqctx \<Rightarrow> Keypair \<Rightarrow> nat \<Rightarrow> 'e + string \<times> int) \<Rightarrow> reqctx \<Rightarrow> string
     \<Rightarrow> 'e response" where
  "RetrieveChallenges MintChallenge ctx attr =
     (case (if attr \<noteq> []
            then (case ParseUint attr of
                    Inl err \<Rightarrow> None
                  | Inr count \<Rightarrow> if count \<ge> 100 then None else Some count)
            else Some DefaultRetrieveChallengesCount) of
        None \<Rightarrow> UserError 400 ''count_invalid''
      | Some count \<Rightarrow>
          (case mint_loop MintChallenge ctx 0 count [] of
             Inl err \<Rightarrow> InternalError err
           | Inr challenges \<Rightarrow> Success challenges))"

subsection \<open>CreateUser\<close>

record UserParams =
  Livemode :: bool
  Address :: string
  Username :: string
  EncryptedSeed :: string
  Email :: string
  Verifier :: string












section \<open>Sample inputs\<close>

definition empty_store :: store where
  "empty_store = \<lparr>rows = [], journal = []\<rparr>"

definition env_ok :: env where
  "env_ok = \<lparr>token_New = ''balance_8hTx'', time_Now = 1500000000,
             exec_err = None, query_err = None, cursor_first = 0, next_err = None,
             scan_err = None, close_err = None\<rparr>"

definition env_other :: env where
  "env_other = \<lparr>token_New = ''balance_Wn07'', time_Now = 1500000900,
                exec_err = None, query_err = None, cursor_first = 0, next_err = None,
                scan_err = None, close_err = None\<rparr>"

definition row_bob :: Balance where
  "row_bob = \<lparr>Owner = ''mint'', Token = ''balance_Qz41'', Created = 1400000000,
              Propagation = PgTpPropagated, Asset = ''USD'', Holder = ''bob'', Value = 7\<rparr>"

definition row_alice :: Balance where
  "row_alice = \<lparr>Owner = ''mint'', Token = ''balance_8hTx'', Created = 1500000000,
                Propagation = PgTpCanonical, Asset = ''USD'', Holder = ''alice'', Value = 0\<rparr>"

definition store_bob :: store where
  "store_bob = \<lparr>rows = [row_bob], journal = []\<rparr>"

definition store_first :: store where
  "store_first = \<lparr>rows = [row_bob, row_alice],
                  journal = [SelectByAssetHolder ''USD'' ''alice'', InsertBalance row_alice]\<rparr>"

definition calls_between :: "call list" where
  "calls_between =
     [CallCreate env_other ''mint'' ''USD'' ''alice'' 3,
      CallSave env_ok (row_alice\<lparr>Created := 0, Value := 12\<rparr>)]"

definition ctx_test :: reqctx where
  "ctx_test = \<lparr>ctx_livemode = False,
               ctx_address = ''GABCDEFGHIJKLMNOPQRSTUVWXYZ234567ABCDEFGHIJKLMNOPQRSTUVW''\<rparr>"

definition mint_ok :: "reqctx \<Rightarrow> Keypair \<Rightarrow> nat \<Rightarrow> unit + string \<times> int" where
  "mint_ok ctx k i =
     Inr ((case k of RootLiveKeypair \<Rightarrow> ''live'' | RootTestKeypair \<Rightarrow> ''test''),
          1500000000000000000 + int i)"






text \<open>A minter whose challenges and times differ from call to call.\<close>

definition mint_seq :: "reqctx \<Rightarrow> Keypair \<Rightarrow> nat \<Rightarrow> unit + string \<times> int" where
  "mint_seq ctx k i =
     Inr ((case k of RootLiveKeypair \<Rightarrow> ''live'' | RootTestKeypair \<Rightarrow> ''test'')
            @ replicate i (CHR ''+''),
          1500000000000000000 + 1000000 * int i)"



section \<open>Properties of the balance store\<close>

subsection \<open>What each operation returns and what it leaves in the store\<close>

lemma journal_record_stmt: "journal (record_stmt q s) = journal s @ [q]"
  by (simp add: record_stmt_def)

lemma rows_record_stmt: "rows (record_stmt q s) = rows s"
  by (simp add: record_stmt_def)

lemma StructScan_row: "StructScan row b = row"
  by (simp add: StructScan_def)

lemma Create_store:
  "snd (CreateCanonicalBalance e owner asset holder val s) =
     record_stmt
       (InsertBalance \<lparr>Owner = owner, Token = token_New e, Created = time_Now e,
                        Propagation = PgTpCanonical, Asset = asset, Holder = holder,
                        Value = val\<rparr>)
       (case exec_err e of
          None \<Rightarrow> s\<lparr>rows := rows s @ [\<lparr>Owner = owner, Token = token_New e,
                        Created = time_Now e, Propagation = PgTpCanonical, Asset = asset,
                        Holder = holder, Value = val\<rparr>]\<rparr>
        | Some _ \<Rightarrow> s)"
  by (simp add: CreateCanonicalBalance_def NamedExec_insert_def Let_def
           split: option.splits db_error.splits)

lemma Create_result:
  "fst (CreateCanonicalBalance e owner asset holder val s) =
     (case exec_err e of
        None \<Rightarrow> Inr \<lparr>Owner = owner, Token = token_New e, Created = time_Now e,
                      Propagation = PgTpCanonical, Asset = asset, Holder = holder,
                      Value = val\<rparr>
      | Some err \<Rightarrow> Inl (if unique_violation err then ErrUniqueConstraintViolation err
                         else StorageError err))"
  by (simp add: CreateCanonicalBalance_def NamedExec_insert_def Let_def Trace_def
           split: option.splits db_error.splits)

lemma Save_store:
  "snd (Save e b s) =
     record_stmt (UpdateValue b)
       (case exec_err e of
          None \<Rightarrow> s\<lparr>rows := map (update_row b) (rows s)\<rparr>
        | Some _ \<Rightarrow> s)"
  by (simp add: Save_def NamedExec_update_def split: option.splits)

lemma Save_result: "fst (Save e b s) = map_option StorageError (exec_err e)"
  by (simp add: Save_def NamedExec_update_def Trace_def split: option.splits)

lemma Load_store:
  "snd (LoadCanonicalBalanceByAssetHolder e asset holder s) =
     record_stmt (SelectByAssetHolder asset holder) s"
  by (simp add: LoadCanonicalBalanceByAssetHolder_def NamedQuery_def Let_def
           split: option.splits)

lemma Load_result:
  "fst (LoadCanonicalBalanceByAssetHolder e asset holder s) =
     (case query_err e of
        Some err \<Rightarrow> Inl (StorageError err)
      | None \<Rightarrow>
         (case rows_Next e (rotate (cursor_first e) (select_rows asset holder (rows s))) of
            None \<Rightarrow> Inr None
          | Some row \<Rightarrow>
             (case scan_err e of
                Some err \<Rightarrow> Inl (StorageError err)
              | None \<Rightarrow>
                 (case close_err e of
                    Some err \<Rightarrow> Inl (StorageError err)
                  | None \<Rightarrow> Inr (Some row)))))"
  by (simp add: LoadCanonicalBalanceByAssetHolder_def NamedQuery_def Let_def Trace_def
        StructScan_row split: option.splits)

text \<open>
  What \<open>rows.Next()\<close> yields: nothing when no row is selected, whatever the engine does;
  the row the engine puts first when the cursor does not fail.
\<close>

lemma rows_Next_empty: "rows_Next e [] = None"
  by (simp add: rows_Next_def split: option.splits)

lemma rows_Next_first:
  assumes "next_err e = None" and "xs \<noteq> []"
  shows "rows_Next e (rotate n xs) = Some (xs ! (n mod length xs))"
proof -
  from assms(2) have "rotate n xs \<noteq> []"
    by simp
  then obtain y ys where r: "rotate n xs = y # ys"
    by (cases "rotate n xs") auto
  from assms(2) have "hd (rotate n xs) = xs ! (n mod length xs)"
    by (rule hd_rotate_conv_nth)
  with r assms(1) show ?thesis
    by (simp add: rows_Next_def)
qed

lemma LoadOrCreate_result:
  "fst (LoadOrCreateCanonicalBalanceByAssetHolder e owner asset holder s) =
     (case fst (LoadCanonicalBalanceByAssetHolder e asset holder s) of
        Inl err \<Rightarrow> Inl err
      | Inr None \<Rightarrow> fst (CreateCanonicalBalance e owner asset holder 0
                           (record_stmt (SelectByAssetHolder asset holder) s))
      | Inr (Some b) \<Rightarrow> Inr b)"
  using Load_store [of e asset holder s]
  by (cases "LoadCanonicalBalanceByAssetHolder e asset holder s")
     (simp add: LoadOrCreateCanonicalBalanceByAssetHolder_def Trace_def
           split: sum.splits option.splits prod.splits)

lemma LoadOrCreate_store:
  "snd (LoadOrCreateCanonicalBalanceByAssetHolder e owner asset holder s) =
     (case fst (LoadCanonicalBalanceByAssetHolder e asset holder s) of
        Inl err \<Rightarrow> record_stmt (SelectByAssetHolder asset holder) s
      | Inr None \<Rightarrow> snd (CreateCanonicalBalance e owner asset holder 0
                           (record_stmt (SelectByAssetHolder asset holder) s))
      | Inr (Some b) \<Rightarrow> record_stmt (SelectByAssetHolder asset holder) s)"
  using Load_store [of e asset holder s]
  by (cases "LoadCanonicalBalanceByAssetHolder e asset holder s")
     (simp add: LoadOrCreateCanonicalBalanceByAssetHolder_def Trace_def
           split: sum.splits option.splits prod.splits)

lemma select_rows_empty:
  "(select_rows asset holder rs = []) =
     (\<forall>r\<in>set rs. \<not> (Asset r = asset \<and> Holder r = holder))"
  by (auto simp add: select_rows_def filter_empty_conv)

lemma select_rows_append:
  "select_rows a h (xs @ ys) = select_rows a h xs @ select_rows a h ys"
  by (simp add: select_rows_def)

lemma select_rows_update:
  "map Token (select_rows a h (map (update_row b) rs)) = map Token (select_rows a h rs)"
  by (induction rs) (auto simp add: select_rows_def update_row_def)

subsection \<open>CreateCanonicalBalance\<close>

text \<open>
  Claim C1. Whatever the engine answers, \<open>CreateCanonicalBalance\<close> sends it one
  statement, the insert of the new row, and no query before it. When the engine refuses
  the insert with a uniqueness violation (a \<open>*pq.Error\<close> whose code is named
  \<open>unique_violation\<close>, or a \<open>sqlite3.Error\<close> whose extended code is
  \<open>ErrConstraintUnique\<close>) the function returns \<open>ErrUniqueConstraintViolation\<close> around
  that error; any other error of the engine comes back as the storage error it is. In
  both cases no row is added.
\<close>

theorem CreateCanonicalBalance_errors:
  "journal (snd (CreateCanonicalBalance e owner asset holder val s)) =
     journal s @ [InsertBalance \<lparr>Owner = owner, Token = token_New e, Created = time_Now e,
                    Propagation = PgTpCanonical, Asset = asset, Holder = holder,
                    Value = val\<rparr>]
   \<and> (\<forall>err. exec_err e = Some err \<longrightarrow>
         fst (CreateCanonicalBalance e owner asset holder val s) =
           Inl (if unique_violation err then ErrUniqueConstraintViolation err
                else StorageError err)
         \<and> rows (snd (CreateCanonicalBalance e owner asset holder val s)) = rows s)"
  by (auto simp add: Create_store Create_result journal_record_stmt rows_record_stmt
        split: option.splits)

theorem CreateCanonicalBalance_errors_witness:
  "CreateCanonicalBalance (env_ok\<lparr>exec_err := Some (PqError ''unique_violation'')\<rparr>)
        ''mint'' ''USD'' ''alice'' 5 empty_store
     = (Inl (ErrUniqueConstraintViolation (PqError ''unique_violation'')),
        \<lparr>rows = [],
         journal = [InsertBalance \<lparr>Owner = ''mint'', Token = ''balance_8hTx'',
                      Created = 1500000000, Propagation = PgTpCanonical, Asset = ''USD'',
                      Holder = ''alice'', Value = 5\<rparr>]\<rparr>)
   \<and> fst (CreateCanonicalBalance (env_ok\<lparr>exec_err := Some (Sqlite3Error 2067)\<rparr>)
        ''mint'' ''USD'' ''alice'' 5 empty_store)
     = Inl (ErrUniqueConstraintViolation (Sqlite3Error 2067))
   \<and> fst (CreateCanonicalBalance (env_ok\<lparr>exec_err := Some (Sqlite3Error 1555)\<rparr>)
        ''mint'' ''USD'' ''alice'' 5 empty_store)
     = Inl (StorageError (Sqlite3Error 1555))
   \<and> fst (CreateCanonicalBalance (env_ok\<lparr>exec_err := Some (PqError ''deadlock_detected'')\<rparr>)
        ''mint'' ''USD'' ''alice'' 5 empty_store)
     = Inl (StorageError (PqError ''deadlock_detected''))"
  using CreateCanonicalBalance_errors
          [of "env_ok\<lparr>exec_err := Some (PqError ''unique_violation'')\<rparr>"
              "''mint''" "''USD''" "''alice''" 5 empty_store]
        CreateCanonicalBalance_errors
          [of "env_ok\<lparr>exec_err := Some (Sqlite3Error 2067)\<rparr>"
              "''mint''" "''USD''" "''alice''" 5 empty_store]
        CreateCanonicalBalance_errors
          [of "env_ok\<lparr>exec_err := Some (Sqlite3Error 1555)\<rparr>"
              "''mint''" "''USD''" "''alice''" 5 empty_store]
        CreateCanonicalBalance_errors
          [of "env_ok\<lparr>exec_err := Some (PqError ''deadlock_detected'')\<rparr>"
              "''mint''" "''USD''" "''alice''" 5 empty_store]
  by (simp add: env_ok_def empty_store_def ErrConstraintUnique_def prod_eq_iff)

subsection \<open>LoadCanonicalBalanceByAssetHolder\<close>

text \<open>
  Claim C4. When the query does not fail and the relation holds no row for the asset
  and the holder, \<open>LoadCanonicalBalanceByAssetHolder\<close> returns no balance and no error
  (\<open>Inr None\<close>); the store has received the query and nothing else.
\<close>

theorem Load_absent:
  "query_err e = None \<Longrightarrow>
   \<forall>r\<in>set (rows s). \<not> (Asset r = asset \<and> Holder r = holder) \<Longrightarrow>
     LoadCanonicalBalanceByAssetHolder e asset holder s =
       (Inr None, record_stmt (SelectByAssetHolder asset holder) s)"
  using select_rows_empty [of asset holder "rows s"]
  by (simp add: prod_eq_iff Load_store Load_result rows_Next_empty)

theorem Load_absent_witness:
  "query_err env_ok = None
   \<and> select_rows ''USD'' ''alice'' (rows store_bob) = []
   \<and> LoadCanonicalBalanceByAssetHolder env_ok ''USD'' ''alice'' store_bob =
       (Inr None, \<lparr>rows = [row_bob], journal = [SelectByAssetHolder ''USD'' ''alice'']\<rparr>)"
  using Load_absent [of env_ok store_bob "''USD''" "''alice''"]
  by (simp add: env_ok_def store_bob_def row_bob_def record_stmt_def select_rows_def)

text \<open>
  Claim C9. The query selects on asset and holder only. When the one row the relation
  holds for the asset and the holder is a propagated balance, and nothing fails,
  \<open>LoadCanonicalBalanceByAssetHolder\<close> returns that row, its propagation as stored,
  and not the absence of a balance.
\<close>

theorem Load_ignores_propagation:
  "query_err e = None \<Longrightarrow> next_err e = None \<Longrightarrow> scan_err e = None \<Longrightarrow>
   close_err e = None \<Longrightarrow>
   select_rows asset holder (rows s) = [r] \<Longrightarrow> Propagation r = PgTpPropagated \<Longrightarrow>
     fst (LoadCanonicalBalanceByAssetHolder e asset holder s) = Inr (Some r)
     \<and> (\<exists>b. fst (LoadCanonicalBalanceByAssetHolder e asset holder s) = Inr (Some b)
            \<and> Propagation b = PgTpPropagated)"
  by (simp add: Load_result rows_Next_def)

theorem Load_ignores_propagation_witness:
  "select_rows ''USD'' ''bob'' (rows store_bob) = [row_bob]
   \<and> Propagation row_bob = PgTpPropagated
   \<and> fst (LoadCanonicalBalanceByAssetHolder env_ok ''USD'' ''bob'' store_bob)
       = Inr (Some row_bob)"
  using Load_ignores_propagation [of env_ok "''USD''" "''bob''" store_bob row_bob]
  by (simp add: env_ok_def store_bob_def row_bob_def select_rows_def)

subsection \<open>LoadOrCreateCanonicalBalanceByAssetHolder\<close>



text \<open>
  No call of the package removes a row, changes the asset, the holder or the token of
  one, or puts a row in front of another in the relation: the tokens of the rows
  selected for an asset and a holder only grow at the end.
\<close>

lemma exec_call_tokens:
  "\<exists>ext. map Token (select_rows a h (rows (exec_call c s))) =
           map Token (select_rows a h (rows s)) @ ext"
proof (cases c)
  case (CallCreate e owner asset holder val)
  then show ?thesis
    by (simp add: Create_store rows_record_stmt select_rows_append split: option.splits)
next
  case (CallSave e b)
  then show ?thesis
    by (simp add: Save_store rows_record_stmt select_rows_update split: option.splits)
next
  case (CallLoad e asset holder)
  then show ?thesis
    by (simp add: Load_store rows_record_stmt)
next
  case (CallLoadOrCreate e owner asset holder)
  then show ?thesis
    by (simp add: LoadOrCreate_store Create_store rows_record_stmt select_rows_append
          split: sum.splits option.splits)
qed

lemma run_tokens:
  "\<exists>ext. map Token (select_rows a h (rows (run cs s))) =
           map Token (select_rows a h (rows s)) @ ext"
proof (induction cs arbitrary: s)
  case Nil
  then show ?case by simp
next
  case (Cons c cs)
  obtain ext1 where e1: "map Token (select_rows a h (rows (exec_call c s))) =
           map Token (select_rows a h (rows s)) @ ext1"
    using exec_call_tokens by blast
  obtain ext2 where e2: "map Token (select_rows a h (rows (run cs (exec_call c s)))) =
           map Token (select_rows a h (rows (exec_call c s))) @ ext2"
    using Cons.IH by blast
  show ?case using e1 e2 by simp
qed

lemma LoadOrCreate_first_token:
  assumes "LoadOrCreateCanonicalBalanceByAssetHolder e owner a h s = (Inr b, s')"
      and "cursor_first e = 0" and "next_err e = None"
  shows "\<exists>rest. map Token (select_rows a h (rows s')) = Token b # rest"
proof (cases "select_rows a h (rows s)")
  case Nil
  with assms have "exec_err e = None"
    using LoadOrCreate_result [of e owner a h s]
    by (auto simp add: Load_result rows_Next_empty Create_result split: option.splits)
  with assms Nil show ?thesis
    using LoadOrCreate_result [of e owner a h s] LoadOrCreate_store [of e owner a h s]
    by (auto simp add: Load_result rows_Next_empty Create_result Create_store
          rows_record_stmt select_rows_append select_rows_def split: option.splits)
next
  case (Cons r rs)
  with assms have next_row: "rows_Next e (rotate (cursor_first e) (select_rows a h (rows s)))
      = Some r"
    using rows_Next_first [of e "r # rs" 0] by simp
  with assms have "b = r"
    using LoadOrCreate_result [of e owner a h s]
    by (auto simp add: Load_result split: option.splits)
  with assms Cons next_row show ?thesis
    using LoadOrCreate_result [of e owner a h s] LoadOrCreate_store [of e owner a h s]
    by (auto simp add: Load_result rows_record_stmt split: option.splits)
qed

lemma LoadOrCreate_loads_first:
  assumes "LoadOrCreateCanonicalBalanceByAssetHolder e owner a h s = (Inr b, s')"
      and "cursor_first e = 0" and "next_err e = None"
      and "map Token (select_rows a h (rows s)) = t # rest"
  shows "Token b = t \<and> rows s' = rows s
         \<and> journal s' = journal s @ [SelectByAssetHolder a h]"
proof -
  from assms(4) obtain r rs where sel: "select_rows a h (rows s) = r # rs"
    and "Token r = t"
    by (cases "select_rows a h (rows s)") auto
  from sel assms(2,3)
  have "rows_Next e (rotate (cursor_first e) (select_rows a h (rows s))) = Some r"
    using rows_Next_first [of e "r # rs" 0] by simp
  with assms(1) \<open>Token r = t\<close> show ?thesis
    using LoadOrCreate_result [of e owner a h s] LoadOrCreate_store [of e owner a h s]
    by (auto simp add: Load_result record_stmt_def split: option.splits)
qed

text \<open>
  What does hold of repeated calls: when the engine yields the selected rows in storage
  order and its cursor does not fail, in the first call and in the later one, the later
  call returns the token of the first, adds no row and sends the query only, whatever
  calls were made in between.
\<close>

lemma LoadOrCreate_same_token_in_order:
  assumes "LoadOrCreateCanonicalBalanceByAssetHolder e1 owner1 asset holder s0 = (Inr b1, s1)"
      and "cursor_first e1 = 0" and "next_err e1 = None"
      and "LoadOrCreateCanonicalBalanceByAssetHolder e2 owner2 asset holder (run calls s1)
             = (Inr b2, s2)"
      and "cursor_first e2 = 0" and "next_err e2 = None"
  shows "Token b2 = Token b1 \<and> rows s2 = rows (run calls s1)
         \<and> journal s2 = journal (run calls s1) @ [SelectByAssetHolder asset holder]"
proof -
  from LoadOrCreate_first_token [OF assms(1,2,3)]
  obtain rest where first: "map Token (select_rows asset holder (rows s1)) = Token b1 # rest"
    by auto
  from run_tokens [of asset holder calls s1]
  obtain ext where later:
    "map Token (select_rows asset holder (rows (run calls s1))) =
       map Token (select_rows asset holder (rows s1)) @ ext"
    by auto
  from first later
  have "map Token (select_rows asset holder (rows (run calls s1))) = Token b1 # (rest @ ext)"
    by simp
  then show ?thesis
    by (rule LoadOrCreate_loads_first [OF assms(4,5,6)])
qed


subsection \<open>Save\<close>

text \<open>
  Claim C5. \<open>Save\<close> succeeds exactly when the engine executes the update, whatever the
  value of the balance is: it checks nothing about the value. After a successful
  \<open>Save\<close> of a balance the relation has the rows it had, in the same places; a row
  whose owner and token are the owner and token of the balance has the value of the
  balance and is otherwise as before (owner, token, creation time, propagation, asset
  and holder are unchanged); every other row is unchanged. The update is the only
  statement sent.
\<close>

theorem Save_frame:
  "(fst (Save e b s) = None) = (exec_err e = None)
   \<and> (fst (Save e b s) = None \<longrightarrow>
        length (rows (snd (Save e b s))) = length (rows s)
        \<and> (\<forall>i<length (rows s).
              rows (snd (Save e b s)) ! i =
                (if Owner (rows s ! i) = Owner b \<and> Token (rows s ! i) = Token b
                 then (rows s ! i)\<lparr>Value := Value b\<rparr>
                 else rows s ! i))
        \<and> journal (snd (Save e b s)) = journal s @ [UpdateValue b])"
  by (auto simp add: Save_store Save_result record_stmt_def update_row_def)

theorem Save_frame_witness:
  "fst (Save env_ok (row_alice\<lparr>Value := 4\<rparr>) store_first) = None
   \<and> rows (snd (Save env_ok (row_alice\<lparr>Value := 4\<rparr>) store_first))
       = [row_bob, row_alice\<lparr>Value := 4\<rparr>]
   \<and> journal (snd (Save env_ok (row_alice\<lparr>Value := 4\<rparr>) store_first))
       = journal store_first @ [UpdateValue (row_alice\<lparr>Value := 4\<rparr>)]"
  using Save_frame [of env_ok "row_alice\<lparr>Value := 4\<rparr>" store_first]
  by (simp add: Save_store Save_result record_stmt_def update_row_def env_ok_def
        row_bob_def row_alice_def store_first_def)

subsection \<open>The stored values\<close>

text \<open>
  The operations compute no amount: a value in the relation after a call was there
  before, or was handed in by the call, or is the zero of a created balance.
\<close>

lemma exec_call_values:
  "set (map Value (rows (exec_call c s))) \<subseteq>
     set (map Value (rows s)) \<union> set (call_values c) \<union> {0}"
proof (cases c)
  case (CallCreate e owner asset holder val)
  then show ?thesis
    by (auto simp add: Create_store rows_record_stmt split: option.splits)
next
  case (CallSave e b)
  then show ?thesis
    by (auto simp add: Save_store rows_record_stmt update_row_def
          split: option.splits if_splits)
next
  case (CallLoad e asset holder)
  then show ?thesis
    by (auto simp add: Load_store rows_record_stmt)
next
  case (CallLoadOrCreate e owner asset holder)
  then show ?thesis
    by (auto simp add: LoadOrCreate_store Create_store rows_record_stmt
          split: sum.splits option.splits)
qed

lemma run_values:
  "set (map Value (rows (run calls s))) \<subseteq>
     set (map Value (rows s)) \<union> set (concat (map call_values calls)) \<union> {0}"
proof (induction calls arbitrary: s)
  case Nil
  then show ?case by auto
next
  case (Cons c cs)
  have "set (map Value (rows (run cs (exec_call c s)))) \<subseteq>
          set (map Value (rows (exec_call c s))) \<union> set (concat (map call_values cs)) \<union> {0}"
    by (rule Cons.IH)
  with exec_call_values [of c s] show ?case
    by (simp only: run.simps list.map concat.simps set_append) blast
qed

text \<open>
  Claim C7. After any sequence of calls of \<open>CreateCanonicalBalance\<close>, \<open>Save\<close>,
  \<open>LoadCanonicalBalanceByAssetHolder\<close> and \<open>LoadOrCreateCanonicalBalanceByAssetHolder\<close>,
  from any store, every value in the relation is at least zero. The operations check
  no value; the bound is the one of the type \<open>Amount\<close>, which the spec defines as
  non-negative, and it is kept because the operations only store amounts they are
  given: every value in the relation was in it at the start, or is the argument of a
  \<open>CreateCanonicalBalance\<close> or the value of a balance given to \<open>Save\<close>, or is the zero
  of a balance that \<open>LoadOrCreateCanonicalBalanceByAssetHolder\<close> created.
\<close>

theorem store_values_nonneg:
  "list_all (\<lambda>r. 0 \<le> Value r) (rows (run calls s))
   \<and> set (map Value (rows (run calls s))) \<subseteq>
       set (map Value (rows s)) \<union> set (concat (map call_values calls)) \<union> {0}"
  using run_values [of calls s] by (simp add: list_all_iff)

theorem store_values_nonneg_witness:
  "map Value (rows store_first) = [7, 0]
   \<and> concat (map call_values calls_between) = [3, 12]
   \<and> map Value (rows (run calls_between store_first)) = [7, 12, 3]
   \<and> list_all (\<lambda>r. 0 \<le> Value r) (rows (run calls_between store_first))"
  using store_values_nonneg [of calls_between store_first]
  by (simp add: Create_store Save_store record_stmt_def update_row_def env_ok_def
        env_other_def row_bob_def row_alice_def store_first_def calls_between_def)

section \<open>Properties of the request controller\<close>

subsection \<open>RetrieveChallenges\<close>

text \<open>
  When no call of \<open>MintChallenge\<close> fails, the loop appends, for each number of a call
  from \<open>i\<close> up to the count and in this order, the challenge that the call with
  \<open>RootLiveKeypair\<close> returned and its creation time in milliseconds.
\<close>

lemma mint_loop_minted:
  "\<forall>j. i \<le> j \<and> j < count \<longrightarrow> (\<exists>c t. M ctx RootLiveKeypair j = Inr (c, t)) \<Longrightarrow>
     mint_loop M ctx i count cs =
       Inr (cs @ map (\<lambda>j. ChallengeResource (fst (projr (M ctx RootLiveKeypair j)))
                         (snd (projr (M ctx RootLiveKeypair j)) sdiv (1000 * 1000)))
                  [i..<count])"
proof (induction M ctx i count cs rule: mint_loop.induct)
  case (1 M ctx i count cs)
  show ?case
  proof (cases "i < count")
    case True
    with "1.prems" obtain c t where m: "M ctx RootLiveKeypair i = Inr (c, t)"
      by (metis order_refl)
    from "1.prems" have rest:
      "\<forall>j. i + 1 \<le> j \<and> j < count \<longrightarrow> (\<exists>c t. M ctx RootLiveKeypair j = Inr (c, t))"
      by simp
    from True have upt: "[i..<count] = i # [i + 1..<count]"
      by (simp add: upt_conv_Cons)
    from "1.IH" [OF True m refl rest] True m show ?thesis
      by (subst mint_loop.simps) (simp add: upt)
  next
    case False
    then show ?thesis by simp
  qed
qed

lemma mint_loop_keypair:
  "mint_loop M ctx i count cs = mint_loop (\<lambda>c k. M c RootLiveKeypair) ctx i count cs"
proof (induction M ctx i count cs rule: mint_loop.induct)
  case (1 M ctx i count cs)
  show ?case
  proof (cases "i < count")
    case True
    show ?thesis
    proof (cases "M ctx RootLiveKeypair i")
      case (Inl err)
      with True show ?thesis by simp
    next
      case (Inr p)
      obtain c t where p: "p = (c, t)" by (cases p)
      from "1.IH" [OF True Inr [unfolded p] refl] True Inr p show ?thesis
        by (subst (1 2) mint_loop.simps) simp
    qed
  next
    case False
    then show ?thesis by simp
  qed
qed

text \<open>
  Whatever the livemode of the request, the challenges are those \<open>MintChallenge\<close>
  makes with \<open>RootLiveKeypair\<close>: no other keypair is ever handed to it.
\<close>

lemma RetrieveChallenges_keypair:
  "RetrieveChallenges M ctx attr = RetrieveChallenges (\<lambda>c k. M c RootLiveKeypair) ctx attr"
  unfolding RetrieveChallenges_def
  by (subst mint_loop_keypair) (rule refl)

text \<open>The two lists of trusted verifiers have no key in common.\<close>

lemma emailVerifiers_disjoint: "set (emailVerifiers True) \<inter> set (emailVerifiers False) = {}"
  by (simp add: emailVerifiers_def)

text \<open>
  Claim C6 asks that the keypair which signs the challenges be chosen by the livemode.
  The code does not do so: a request in test mode for one challenge is answered with a
  challenge signed by the live keypair, the same as in live mode.
\<close>

theorem RetrieveChallenges_testmode_live_keypair:
  "ctx_livemode ctx_test = False
   \<and> RetrieveChallenges mint_ok ctx_test ''1'' =
       Success [ChallengeResource ''live'' 1500000000000]
   \<and> RetrieveChallenges mint_ok (ctx_test\<lparr>ctx_livemode := True\<rparr>) ''1'' =
       Success [ChallengeResource ''live'' 1500000000000]"
  by (simp add: RetrieveChallenges_def ParseUint_def digit_chars_def mint_ok_def ctx_test_def
        signed_divide_int_def)

text \<open>
  Claim C10. When the count attribute parses as an unsigned integer below 100 and
  \<open>MintChallenge\<close> does not fail, \<open>RetrieveChallenges\<close> calls it that many times and
  answers with exactly the challenges it minted, one for each call and in the order of
  the calls, each with its creation time in milliseconds: none for 0, and also 11 to 99
  of them, more than \<open>MaxRetrieveChallengesCount\<close>, which the handler never reads.
  When the attribute is absent it mints and returns exactly 10 challenges in the same
  way.
\<close>

theorem RetrieveChallenges_count:
  "(ParseUint attr = Inr n \<and> n < 100
      \<and> (\<forall>i<n. \<exists>c t. MintChallenge ctx RootLiveKeypair i = Inr (c, t))
    \<longrightarrow> RetrieveChallenges MintChallenge ctx attr =
          Success (map (\<lambda>i. ChallengeResource
                              (fst (projr (MintChallenge ctx RootLiveKeypair i)))
                              (snd (projr (MintChallenge ctx RootLiveKeypair i))
                                 sdiv (1000 * 1000)))
                     [0..<n])
        \<and> length (map (\<lambda>i. ChallengeResource
                              (fst (projr (MintChallenge ctx RootLiveKeypair i)))
                              (snd (projr (MintChallenge ctx RootLiveKeypair i))
                                 sdiv (1000 * 1000)))
                     [0..<n]) = n)
   \<and> ((\<forall>i<10. \<exists>c t. MintChallenge ctx RootLiveKeypair i = Inr (c, t))
    \<longrightarrow> RetrieveChallenges MintChallenge ctx [] =
          Success (map (\<lambda>i. ChallengeResource
                              (fst (projr (MintChallenge ctx RootLiveKeypair i)))
                              (snd (projr (MintChallenge ctx RootLiveKeypair i))
                                 sdiv (1000 * 1000)))
                     [0..<10]))"
proof (intro conjI impI)
  assume a: "ParseUint attr = Inr n \<and> n < 100
      \<and> (\<forall>i<n. \<exists>c t. MintChallenge ctx RootLiveKeypair i = Inr (c, t))"
  then have ne: "attr \<noteq> []"
    by (auto simp add: ParseUint_def)
  from a have "mint_loop MintChallenge ctx 0 n [] =
      Inr ([] @ map (\<lambda>i. ChallengeResource
                              (fst (projr (MintChallenge ctx RootLiveKeypair i)))
                              (snd (projr (MintChallenge ctx RootLiveKeypair i))
                                 sdiv (1000 * 1000)))
                     [0..<n])"
    by (intro mint_loop_minted) simp
  with a ne show "RetrieveChallenges MintChallenge ctx attr =
          Success (map (\<lambda>i. ChallengeResource
                              (fst (projr (MintChallenge ctx RootLiveKeypair i)))
                              (snd (projr (MintChallenge ctx RootLiveKeypair i))
                                 sdiv (1000 * 1000)))
                     [0..<n])"
    by (simp add: RetrieveChallenges_def)
next
  show "length (map (\<lambda>i. ChallengeResource
                              (fst (projr (MintChallenge ctx RootLiveKeypair i)))
                              (snd (projr (MintChallenge ctx RootLiveKeypair i))
                                 sdiv (1000 * 1000)))
                     [0..<n]) = n"
    by simp
next
  assume a: "\<forall>i<10. \<exists>c t. MintChallenge ctx RootLiveKeypair i = Inr (c, t)"
  have "mint_loop MintChallenge ctx 0 10 [] =
      Inr ([] @ map (\<lambda>i. ChallengeResource
                              (fst (projr (MintChallenge ctx RootLiveKeypair i)))
                              (snd (projr (MintChallenge ctx RootLiveKeypair i))
                                 sdiv (1000 * 1000)))
                     [0..<10])"
    using a by (intro mint_loop_minted) simp
  then show "RetrieveChallenges MintChallenge ctx [] =
          Success (map (\<lambda>i. ChallengeResource
                              (fst (projr (MintChallenge ctx RootLiveKeypair i)))
                              (snd (projr (MintChallenge ctx RootLiveKeypair i))
                                 sdiv (1000 * 1000)))
                     [0..<10])"
    by (simp add: RetrieveChallenges_def DefaultRetrieveChallengesCount_def)
qed

lemma ParseUint_42: "ParseUint ''42'' = Inr 42"
  by (simp add: ParseUint_def digit_chars_def)

lemma ParseUint_3: "ParseUint ''3'' = Inr 3"
  by (simp add: ParseUint_def digit_chars_def)

lemma ParseUint_0: "ParseUint ''0'' = Inr 0"
  by (simp add: ParseUint_def digit_chars_def)

lemma mint_seq_resource:
  "ChallengeResource (fst (projr (mint_seq ctx RootLiveKeypair i)))
     (snd (projr (mint_seq ctx RootLiveKeypair i)) sdiv (1000 * 1000)) =
   ChallengeResource (''live'' @ replicate i (CHR ''+'')) (1500000000000 + int i)"
  by (simp add: mint_seq_def signed_divide_int_def sgn_if)

theorem RetrieveChallenges_count_witness:
  "ParseUint ''3'' = Inr 3
   \<and> RetrieveChallenges mint_seq ctx_test ''3'' =
       Success [ChallengeResource ''live'' 1500000000000,
                ChallengeResource ''live+'' 1500000000001,
                ChallengeResource ''live++'' 1500000000002]
   \<and> ParseUint ''42'' = Inr 42 \<and> MaxRetrieveChallengesCount < 42
   \<and> RetrieveChallenges mint_seq ctx_test ''42'' =
       Success (map (\<lambda>i. ChallengeResource (''live'' @ replicate i (CHR ''+''))
                           (1500000000000 + int i)) [0..<42])
   \<and> ParseUint ''0'' = Inr 0
   \<and> RetrieveChallenges mint_seq ctx_test ''0'' = Success []
   \<and> RetrieveChallenges mint_seq ctx_test [] =
       Success (map (\<lambda>i. ChallengeResource (''live'' @ replicate i (CHR ''+''))
                           (1500000000000 + int i)) [0..<10])"
  using RetrieveChallenges_count [of "''3''" 3 mint_seq ctx_test]
        RetrieveChallenges_count [of "''42''" 42 mint_seq ctx_test]
        RetrieveChallenges_count [of "''0''" 0 mint_seq ctx_test]
  by (simp add: ParseUint_42 ParseUint_3 ParseUint_0 mint_seq_resource
        MaxRetrieveChallengesCount_def)
     (simp add: mint_seq_def upt_conv_Cons numeral_3_eq_3)

subsection \<open>CreateUser\<close>










end
